theory Spec2Isabelle
  imports Main "HOL-Library.Sublist"
begin

section \<open>The component of \<^verbatim>\<open>src/index.tsx\<close> as a state machine\<close>

text \<open>
  The program is one React component, \<^verbatim>\<open>App\<close>. Its behaviour is a set of callbacks
  that the browser runs one at a time: the click handler \<^verbatim>\<open>captureAndDescribe\<close>,
  the continuation of that handler after \<^verbatim>\<open>await ai.models.generateContent\<close>, the
  \<^verbatim>\<open>error\<close> listener and the \<^verbatim>\<open>play().catch\<close> callback registered by
  \<^verbatim>\<open>speak\<close>, the \<^verbatim>\<open>onerror\<close> callback of an utterance, \<^verbatim>\<open>loadVoices\<close>, the
  continuation of \<^verbatim>\<open>setupCamera\<close>, and the effect's cleanup. Each callback is a
  function from the state of the world to the state of the world; an \<open>event\<close> names
  which callback the browser runs next.

  The world holds the three React state variables and \<^verbatim>\<open>voice\<close>, the DOM objects the
  refs point to, the callbacks that are registered and the promises that are pending,
  and a log of every operation the component performs on its state setters and on its
  collaborators, in program order. The log also records each call of \<^verbatim>\<open>speak\<close> and of
  \<^verbatim>\<open>speakLocally\<close> with its argument; it is the only part of the world that has no
  counterpart in the browser.

  Conventions.
  \<^item> A string is the list of bytes that writes the JavaScript string in UTF-8, an
    unpaired surrogate \<^verbatim>\<open>U+D800\<close> to \<^verbatim>\<open>U+DFFF\<close> written as the three bytes
    \<^verbatim>\<open>ED\<close>, \<^verbatim>\<open>A0\<close> to \<^verbatim>\<open>BF\<close>, \<^verbatim>\<open>80\<close> to \<^verbatim>\<open>BF\<close> (a surrogate pair is one
    character of four bytes). Every JavaScript string has one such list, equal strings
    have equal lists, and the empty string is the only falsy string.
  \<^item> An exception is a value: a function that can throw returns an \<open>outcome\<close>, either
    \<open>Returned\<close> with the world it leaves or \<open>Thrown\<close> with the fault and the world as it
    is at the throw. A callback that does not catch the fault ends there.
  \<^item> React commits the state written by a callback before the browser runs the next
    callback, so a callback reads the state variables from the world. The one value a
    callback keeps from the render that created it and uses after a suspension is
    \<^verbatim>\<open>voice\<close> (read by \<^verbatim>\<open>speakLocally\<close>); it is passed explicitly.
  \<^item> A ref is a flag (is \<^verbatim>\<open>ref.current\<close> non-null) beside the DOM object itself, which
    exists whether or not the ref is attached.
  \<^item> The platform calls the source guards (a \<^verbatim>\<open>try\<close>, a \<^verbatim>\<open>.catch\<close>, an error listener,
    a null test) can fail, and the failure is a branch of the model; so is the
    \<^verbatim>\<open>URIError\<close> of \<^verbatim>\<open>encodeURIComponent\<close>. The other platform
    calls (\<^verbatim>\<open>drawImage\<close>, \<^verbatim>\<open>toDataURL\<close>, \<^verbatim>\<open>speechSynthesis.cancel\<close>, \<^verbatim>\<open>track.stop\<close>)
    return normally. \<^verbatim>\<open>console\<close> output is not part of the world.
  \<^item> The events are those of the mounted component. The cleanup of the effect is a
    function of its own, and \<open>unmount\<close> applies it to the world as React leaves it.
\<close>

subsection \<open>Data\<close>

record synth_voice =
  name :: string
  lang :: string

datatype track = Live | Ended

record video_el =
  readyState :: nat
  srcObject :: "track list option"
  videoWidth :: nat
  videoHeight :: nat
  frame :: string

record canvas_el =
  context2d :: bool
  width :: nat
  height :: nat
  image :: string

text \<open>
  A listener or a pending \<^verbatim>\<open>play()\<close> promise belongs to one call of \<^verbatim>\<open>speak\<close>; the
  call's number identifies the closure \<^verbatim>\<open>onErrorHandler\<close>, and the closure holds the
  call's \<^verbatim>\<open>text\<close> and the \<^verbatim>\<open>voice\<close> of its render.
\<close>

type_synonym attempt = "nat \<times> string \<times> synth_voice option"

record audio_el =
  src :: string
  listeners :: "attempt list"

datatype call =
    SetIsLoading bool
  | SetDescription string
  | SetError string
  | SetVoice synth_voice
  | SpeakCall string
  | SpeakLocallyCall string
  | SynthCancel
  | SynthSpeak string "synth_voice option"
  | AudioPlay string
  | GenerateContent string "string option" string
  | GetUserMedia

record world =
  isLoading :: bool
  description :: string
  error :: string
  voice :: "synth_voice option"
  videoRef :: bool
  video :: video_el
  canvasRef :: bool
  canvas :: canvas_el
  audioRef :: bool
  audio :: audio_el
  mediaDevices :: bool
  synthThrows :: bool
  onvoiceschanged :: bool
  plays :: "attempt list"
  nextId :: nat
  utterances :: nat
  pendingCycle :: "synth_voice option option"
  pendingCamera :: bool
  trace :: "call list"

subsection \<open>The fixed texts\<close>

definition msgAnalyzing :: string where
  "msgAnalyzing = ''Menganalisis...''"

definition msgNotReady :: string where
  "msgNotReady = ''Kamera belum siap. Mohon tunggu sejenak dan coba lagi.''"

definition msgFailure :: string where
  "msgFailure = ''Maaf, saya tidak dapat mendeskripsikan gambar. Silakan coba lagi.''"

definition msgUtterance :: string where
  "msgUtterance = ''Gagal mengucapkan deskripsi. Fitur suara mungkin tidak didukung.''"

definition msgNoSpeech :: string where
  "msgNoSpeech = ''Fitur suara tidak tersedia di browser ini.''"

definition msgNoAccess :: string where
  "msgNoAccess = ''Tidak dapat mengakses kamera. Silakan periksa izin browser Anda.''"

definition msgNoCamera :: string where
  "msgNoCamera = ''Browser Anda tidak mendukung akses kamera.''"

definition modelName :: string where
  "modelName = ''gemini-2.5-flash''"

definition instruction :: string where
  "instruction = ''Jelaskan gambar ini dalam satu atau dua kalimat singkat untuk orang tunanetra dalam Bahasa Indonesia. Prioritaskan penyebutan jumlah uang atau rintangan.''"

subsection \<open>Platform functions on strings\<close>

text \<open>
  \<^verbatim>\<open>encodeURIComponent\<close>: it throws \<^verbatim>\<open>URIError\<close> when the text holds an unpaired
  surrogate, and otherwise keeps the unreserved characters and writes every other byte of
  the UTF-8 form as \<^verbatim>\<open>%XX\<close>.
\<close>

datatype fault = URIError

fun loneSurrogate :: "string \<Rightarrow> bool" where
  "loneSurrogate [] = False"
| "loneSurrogate [c] = False"
| "loneSurrogate (c # d # cs) =
     ((c = CHR 0xED \<and> 0xA0 \<le> (of_char d :: nat) \<and> (of_char d :: nat) \<le> 0xBF)
      \<or> loneSurrogate (d # cs))"

definition unreserved :: "char \<Rightarrow> bool" where
  "unreserved c =
     (c \<in> set ''ABCDEFGHIJKLMNOPQRSTUVWXYZabcdefghijklmnopqrstuvwxyz0123456789-_.!~*()''
      \<or> c = CHR 0x27)"

definition hexDigit :: "nat \<Rightarrow> char" where
  "hexDigit n = ''0123456789ABCDEF'' ! (n mod 16)"

definition encodeURIComponent :: "string \<Rightarrow> fault + string" where
  "encodeURIComponent text =
     (if loneSurrogate text then Inl URIError
      else Inr (concat (map (\<lambda>c. if unreserved c then [c]
                  else [CHR ''%'', hexDigit (of_char c div 16), hexDigit (of_char c)]) text)))"

text \<open>The template literal of line 64.\<close>

definition ttsUrl :: "string \<Rightarrow> fault + string" where
  "ttsUrl text =
     (case encodeURIComponent text of
        Inl e \<Rightarrow> Inl e
      | Inr q \<Rightarrow>
          Inr (''https://translate.google.com/translate_tts?ie=UTF-8&q='' @ q
                 @ ''&tl=id-ID&client=tw-ob''))"

text \<open>\<^verbatim>\<open>s.split(c)\<close>, and \<^verbatim>\<open>xs[i]\<close> with \<^verbatim>\<open>undefined\<close> as \<open>None\<close>.\<close>

fun split :: "char \<Rightarrow> string \<Rightarrow> string list" where
  "split c [] = [[]]"
| "split c (x # xs) =
     (if x = c then [] # split c xs
      else (case split c xs of [] \<Rightarrow> [[x]] | w # ws \<Rightarrow> (x # w) # ws))"

definition index :: "'a list \<Rightarrow> nat \<Rightarrow> 'a option" where
  "index xs i = (if i < length xs then Some (xs ! i) else None)"

subsection \<open>State setters\<close>

definition logCall :: "call \<Rightarrow> world \<Rightarrow> world" where
  "logCall c s = s\<lparr>trace := trace s @ [c]\<rparr>"

definition setIsLoading :: "bool \<Rightarrow> world \<Rightarrow> world" where
  "setIsLoading b s = logCall (SetIsLoading b) (s\<lparr>isLoading := b\<rparr>)"

definition setDescription :: "string \<Rightarrow> world \<Rightarrow> world" where
  "setDescription t s = logCall (SetDescription t) (s\<lparr>description := t\<rparr>)"

definition setError :: "string \<Rightarrow> world \<Rightarrow> world" where
  "setError t s = logCall (SetError t) (s\<lparr>error := t\<rparr>)"

definition setVoice :: "synth_voice \<Rightarrow> world \<Rightarrow> world" where
  "setVoice v s = logCall (SetVoice v) (s\<lparr>voice := Some v\<rparr>)"

subsection \<open>Speech: \<^verbatim>\<open>speakLocally\<close> and \<^verbatim>\<open>speak\<close>\<close>

text \<open>
  \<^verbatim>\<open>speakLocally\<close> (lines 19 to 37). The \<^verbatim>\<open>try\<close> block fails when \<open>synthThrows\<close> holds,
  after the call of \<^verbatim>\<open>cancel\<close>. An utterance handed to the synthesiser may report an
  error later; \<open>utterances\<close> counts those that have not.
\<close>

definition speakLocally :: "synth_voice option \<Rightarrow> string \<Rightarrow> world \<Rightarrow> world" where
  "speakLocally v text s =
     (let s1 = logCall (SpeakLocallyCall text) s in
      if text = [] then s1
      else
        let s2 = logCall SynthCancel s1 in
        if synthThrows s2 then setError msgNoSpeech s2
        else (logCall (SynthSpeak text v) s2)\<lparr>utterances := Suc (utterances s2)\<rparr>)"

datatype outcome = Returned world | Thrown fault world

fun worldOf :: "outcome \<Rightarrow> world" where
  "worldOf (Returned w) = w"
| "worldOf (Thrown e w) = w"

text \<open>
  \<^verbatim>\<open>speak\<close> (lines 40 to 75): the synchronous part, in the order of the source. The
  listener is registered (line 62) before the URL is built (line 64), so a call that
  throws there leaves its listener on the audio element and has neither set \<^verbatim>\<open>src\<close> nor
  called \<^verbatim>\<open>play()\<close>. The listener and the pending \<^verbatim>\<open>play()\<close> promise a call leaves behind
  are run by the events \<open>AudioError\<close> and \<open>PlayRejected\<close> below.
\<close>

definition speak :: "synth_voice option \<Rightarrow> string \<Rightarrow> world \<Rightarrow> outcome" where
  "speak v text s =
     (let s1 = logCall (SpeakCall text) s in
      if text = [] then Returned s1
      else
        let s2 = logCall SynthCancel s1 in
        if \<not> audioRef s2 then Returned (speakLocally v text s2)
        else
          let k = nextId s2;
              s3 = s2\<lparr>audio := (audio s2)\<lparr>listeners := listeners (audio s2) @ [(k, text, v)]\<rparr>,
                      nextId := Suc k\<rparr>
          in case ttsUrl text of
               Inl e \<Rightarrow> Thrown e s3
             | Inr url \<Rightarrow>
                 Returned (logCall (AudioPlay url)
                   (s3\<lparr>audio := (audio s3)\<lparr>src := url\<rparr>,
                       plays := plays s3 @ [(k, text, v)]\<rparr>)))"

text \<open>The \<^verbatim>\<open>error\<close> event on the audio element: every listener runs once, in the order of
  registration, and is removed (\<^verbatim>\<open>once: true\<close>).\<close>

definition onAudioError :: "world \<Rightarrow> world" where
  "onAudioError s =
     fold (\<lambda>(k, text, v). speakLocally v text) (listeners (audio s))
       (s\<lparr>audio := (audio s)\<lparr>listeners := []\<rparr>\<rparr>)"

text \<open>The \<^verbatim>\<open>play()\<close> promise of call \<open>k\<close> is rejected (lines 68 to 74): the callback
  removes the listener of its own call and falls back. A promise settles once.\<close>

definition onPlayRejected :: "nat \<Rightarrow> world \<Rightarrow> world" where
  "onPlayRejected k s =
     (case find (\<lambda>(i, text, v). i = k) (plays s) of
        None \<Rightarrow> s
      | Some (i, text, v) \<Rightarrow>
          speakLocally v text
            (s\<lparr>plays := filter (\<lambda>(j, t, u). j \<noteq> k) (plays s),
               audio := (audio s)\<lparr>listeners :=
                 filter (\<lambda>(j, t, u). j \<noteq> k) (listeners (audio s))\<rparr>\<rparr>))"

text \<open>\<^verbatim>\<open>utterance.onerror\<close> (lines 28 to 31).\<close>

definition onUtteranceError :: "world \<Rightarrow> world" where
  "onUtteranceError s =
     (case utterances s of
        0 \<Rightarrow> s
      | Suc n \<Rightarrow> setError msgUtterance (s\<lparr>utterances := n\<rparr>))"

subsection \<open>The effect: voices, camera, cleanup\<close>

definition loadVoices :: "synth_voice list \<Rightarrow> world \<Rightarrow> world" where
  "loadVoices availableVoices s =
     (case (case find (\<lambda>v. lang v = ''id-ID'') availableVoices of
              Some v \<Rightarrow> Some v
            | None \<Rightarrow> find (\<lambda>v. take 2 (lang v) = ''id'') availableVoices) of
        Some indonesianVoice \<Rightarrow> setVoice indonesianVoice s
      | None \<Rightarrow> s)"

text \<open>\<^verbatim>\<open>setupCamera\<close> up to its \<^verbatim>\<open>await\<close>, and its two continuations. The callbacks of
  the effect belong to the first render, where \<^verbatim>\<open>voice\<close> is \<^verbatim>\<open>null\<close>. A call of \<^verbatim>\<open>speak\<close>
  is the last statement on its path, so the function ends there whether the call returns
  or throws.\<close>

definition setupCamera :: "world \<Rightarrow> world" where
  "setupCamera s =
     (if mediaDevices s then (logCall GetUserMedia s)\<lparr>pendingCamera := True\<rparr>
      else
        (case speak None msgNoCamera (setError msgNoCamera s) of
           Returned s1 \<Rightarrow> s1
         | Thrown e s1 \<Rightarrow> s1))"

definition onCameraGranted :: "track list \<Rightarrow> world \<Rightarrow> world" where
  "onCameraGranted stream s =
     (if \<not> pendingCamera s then s
      else
        let s1 = s\<lparr>pendingCamera := False\<rparr> in
        if videoRef s1 then s1\<lparr>video := (video s1)\<lparr>srcObject := Some stream\<rparr>\<rparr> else s1)"

definition onCameraDenied :: "world \<Rightarrow> world" where
  "onCameraDenied s =
     (if \<not> pendingCamera s then s
      else
        (case speak None msgNoAccess (setError msgNoAccess (s\<lparr>pendingCamera := False\<rparr>)) of
           Returned s1 \<Rightarrow> s1
         | Thrown e s1 \<Rightarrow> s1))"

definition mountEffect :: "synth_voice list \<Rightarrow> world \<Rightarrow> world" where
  "mountEffect availableVoices s =
     setupCamera (loadVoices availableVoices (s\<lparr>onvoiceschanged := True\<rparr>))"

definition stop :: "track \<Rightarrow> track" where
  "stop t = Ended"

text \<open>The cleanup the effect returns (lines 117 to 126).\<close>

definition cleanup :: "world \<Rightarrow> world" where
  "cleanup s =
     (let s1 =
        (if videoRef s then
           (case srcObject (video s) of
              Some stream \<Rightarrow> s\<lparr>video := (video s)\<lparr>srcObject := Some (map stop stream)\<rparr>\<rparr>
            | None \<Rightarrow> s)
         else s)
      in (logCall SynthCancel s1)\<lparr>onvoiceschanged := False\<rparr>)"

text \<open>
  The unmount of the component. React removes the host elements and sets the refs that
  point to them to \<^verbatim>\<open>null\<close> while it commits the removal; the cleanup of a \<^verbatim>\<open>useEffect\<close>
  runs after that, so it reads \<^verbatim>\<open>videoRef.current\<close> as \<^verbatim>\<open>null\<close>.
\<close>

definition unmount :: "world \<Rightarrow> world" where
  "unmount s = cleanup (s\<lparr>videoRef := False, canvasRef := False, audioRef := False\<rparr>)"

subsection \<open>The cycle: \<^verbatim>\<open>captureAndDescribe\<close>\<close>

text \<open>
  Lines 129 to 187, up to the \<^verbatim>\<open>await\<close>: on the two paths that do not reach
  \<^verbatim>\<open>generateContent\<close> the function runs to its last line; on the path that does, the cycle
  is left pending with the \<^verbatim>\<open>voice\<close> of its render. The calls of \<^verbatim>\<open>speak\<close> at lines 135
  and 184 are outside the \<^verbatim>\<open>try\<close>: a fault there would end the handler.
\<close>

definition captureAndDescribe :: "world \<Rightarrow> world" where
  "captureAndDescribe s =
     (if isLoading s then s
      else
        let v = voice s;
            s1 = setError [] (setDescription [] (setIsLoading True s))
        in
        case speak v msgAnalyzing s1 of
          Thrown e s2 \<Rightarrow> s2
        | Returned s2 \<Rightarrow>
            if videoRef s2 \<and> canvasRef s2 \<and> 2 \<le> readyState (video s2) then
              (if context2d (canvas s2) then
                 let c = (canvas s2)\<lparr>width := videoWidth (video s2),
                                      height := videoHeight (video s2),
                                      image := frame (video s2)\<rparr>;
                     dataUrl = image c;
                     base64Data = index (split CHR '','' dataUrl) 1
                 in (logCall (GenerateContent modelName base64Data instruction)
                       (s2\<lparr>canvas := c\<rparr>))\<lparr>pendingCycle := Some v\<rparr>
               else setIsLoading False s2)
            else
              (case speak v msgNotReady (setError msgNotReady s2) of
                 Thrown e s3 \<Rightarrow> s3
               | Returned s3 \<Rightarrow> setIsLoading False s3))"

text \<open>
  The \<^verbatim>\<open>catch\<close> block of lines 174 to 179, followed by line 186. A fault of its own call
  of \<^verbatim>\<open>speak\<close> is not caught by anything: the function ends before line 186.
\<close>

definition catchBlock :: "synth_voice option \<Rightarrow> world \<Rightarrow> world" where
  "catchBlock v s =
     (case speak v msgFailure (setError msgFailure s) of
        Thrown e s1 \<Rightarrow> s1
      | Returned s1 \<Rightarrow> setIsLoading False s1)"

text \<open>
  The continuation when the promise is fulfilled with a response whose \<^verbatim>\<open>text\<close> is
  \<open>resultText\<close> (lines 170 to 172, then line 186). Lines 171 and 172 are inside the
  \<^verbatim>\<open>try\<close>: when \<^verbatim>\<open>speak(resultText)\<close> throws, the \<^verbatim>\<open>catch\<close> block runs. The continuation
  when the promise is rejected is the \<^verbatim>\<open>catch\<close> block.
\<close>

definition onInferenceResolved :: "string \<Rightarrow> world \<Rightarrow> world" where
  "onInferenceResolved resultText s =
     (case pendingCycle s of
        None \<Rightarrow> s
      | Some v \<Rightarrow>
          (case speak v resultText (setDescription resultText (s\<lparr>pendingCycle := None\<rparr>)) of
             Returned s1 \<Rightarrow> setIsLoading False s1
           | Thrown e s1 \<Rightarrow> catchBlock v s1))"

definition onInferenceRejected :: "world \<Rightarrow> world" where
  "onInferenceRejected s =
     (case pendingCycle s of
        None \<Rightarrow> s
      | Some v \<Rightarrow> catchBlock v (s\<lparr>pendingCycle := None\<rparr>))"

subsection \<open>What is rendered\<close>

text \<open>JavaScript's \<^verbatim>\<open>a || b\<close> on strings, and the content of the description box
  (line 297).\<close>

definition orElse :: "string \<Rightarrow> string \<Rightarrow> string" where
  "orElse a b = (if a = [] then b else a)"

definition descriptionBox :: "world \<Rightarrow> string" where
  "descriptionBox s = orElse (description s) (error s)"

subsection \<open>Events\<close>

datatype event =
    Trigger
  | InferenceResolved string
  | InferenceRejected
  | PlayRejected nat
  | AudioError
  | UtteranceError
  | VoicesChanged "synth_voice list"
  | CameraGranted "track list"
  | CameraDenied
  | ReadyStateChanged nat

fun step :: "event \<Rightarrow> world \<Rightarrow> world" where
  "step Trigger s = captureAndDescribe s"
| "step (InferenceResolved resultText) s = onInferenceResolved resultText s"
| "step InferenceRejected s = onInferenceRejected s"
| "step (PlayRejected k) s = onPlayRejected k s"
| "step AudioError s = onAudioError s"
| "step UtteranceError s = onUtteranceError s"
| "step (VoicesChanged vs) s = (if onvoiceschanged s then loadVoices vs s else s)"
| "step (CameraGranted stream) s = onCameraGranted stream s"
| "step CameraDenied s = onCameraDenied s"
| "step (ReadyStateChanged n) s = s\<lparr>video := (video s)\<lparr>readyState := n\<rparr>\<rparr>"

definition run :: "event list \<Rightarrow> world \<Rightarrow> world" where
  "run evs s = fold step evs s"

text \<open>The events that complete a pending cycle.\<close>

fun completes :: "event \<Rightarrow> bool" where
  "completes (InferenceResolved resultText) = True"
| "completes InferenceRejected = True"
| "completes e = False"

subsection \<open>Reading the log\<close>

fun speakCalls :: "call list \<Rightarrow> string list" where
  "speakCalls [] = []"
| "speakCalls (SpeakCall t # cs) = t # speakCalls cs"
| "speakCalls (c # cs) = speakCalls cs"

fun speakLocallyCalls :: "call list \<Rightarrow> string list" where
  "speakLocallyCalls [] = []"
| "speakLocallyCalls (SpeakLocallyCall t # cs) = t # speakLocallyCalls cs"
| "speakLocallyCalls (c # cs) = speakLocallyCalls cs"

fun inferenceCalls :: "call list \<Rightarrow> nat" where
  "inferenceCalls [] = 0"
| "inferenceCalls (GenerateContent m d p # cs) = Suc (inferenceCalls cs)"
| "inferenceCalls (c # cs) = inferenceCalls cs"

definition cameraReady :: "world \<Rightarrow> bool" where
  "cameraReady s = (videoRef s \<and> canvasRef s \<and> 2 \<le> readyState (video s))"

definition activeTracks :: "world \<Rightarrow> nat" where
  "activeTracks s =
     (case srcObject (video s) of
        None \<Rightarrow> 0
      | Some stream \<Rightarrow> length (filter (\<lambda>t. t = Live) stream))"

text \<open>A world for examples: the component is mounted and idle, the camera delivers
  frames, nothing has been spoken yet.\<close>

definition idleWorld :: world where
  "idleWorld =
     \<lparr>isLoading = False, description = [], error = [], voice = None,
      videoRef = True,
      video = \<lparr>readyState = 4, srcObject = Some [Live], videoWidth = 640, videoHeight = 480,
               frame = ''data:image/jpeg;base64,AAAA''\<rparr>,
      canvasRef = True,
      canvas = \<lparr>context2d = True, width = 300, height = 150, image = []\<rparr>,
      audioRef = True,
      audio = \<lparr>src = [], listeners = []\<rparr>,
      mediaDevices = True, synthThrows = False, onvoiceschanged = True,
      plays = [], nextId = 0, utterances = 0, pendingCycle = None, pendingCamera = False,
      trace = []\<rparr>"

section \<open>Properties\<close>

subsection \<open>The log, the speech functions and the events that leave a cycle pending\<close>



lemma speakCalls_append [simp]: "speakCalls (xs @ ys) = speakCalls xs @ speakCalls ys"
  by (induction xs rule: speakCalls.induct) simp_all

lemma speakLocallyCalls_append [simp]:
  "speakLocallyCalls (xs @ ys) = speakLocallyCalls xs @ speakLocallyCalls ys"
  by (induction xs rule: speakLocallyCalls.induct) simp_all

lemma inferenceCalls_append [simp]:
  "inferenceCalls (xs @ ys) = inferenceCalls xs + inferenceCalls ys"
  by (induction xs rule: inferenceCalls.induct) simp_all

lemmas setters = logCall_def setIsLoading_def setDescription_def setError_def setVoice_def

lemma speakLocally_frame [simp]:
  "isLoading (speakLocally v t s) = isLoading s"
  "description (speakLocally v t s) = description s"
  "voice (speakLocally v t s) = voice s"
  "videoRef (speakLocally v t s) = videoRef s"
  "video (speakLocally v t s) = video s"
  "canvasRef (speakLocally v t s) = canvasRef s"
  "canvas (speakLocally v t s) = canvas s"
  "audioRef (speakLocally v t s) = audioRef s"
  "audio (speakLocally v t s) = audio s"
  "mediaDevices (speakLocally v t s) = mediaDevices s"
  "synthThrows (speakLocally v t s) = synthThrows s"
  "onvoiceschanged (speakLocally v t s) = onvoiceschanged s"
  "plays (speakLocally v t s) = plays s"
  "nextId (speakLocally v t s) = nextId s"
  "pendingCycle (speakLocally v t s) = pendingCycle s"
  "pendingCamera (speakLocally v t s) = pendingCamera s"
  by (simp_all add: speakLocally_def setters Let_def)

lemma speakLocally_error:
  "error (speakLocally v t s) = (if t \<noteq> [] \<and> synthThrows s then msgNoSpeech else error s)"
  by (simp add: speakLocally_def setters Let_def)

lemma speakLocally_log [simp]:
  "speakCalls (trace (speakLocally v t s)) = speakCalls (trace s)"
  "inferenceCalls (trace (speakLocally v t s)) = inferenceCalls (trace s)"
  "speakLocallyCalls (trace (speakLocally v t s)) = speakLocallyCalls (trace s) @ [t]"
  by (simp_all add: speakLocally_def setters Let_def)

lemma loneSurrogate_nonempty: "loneSurrogate t \<Longrightarrow> t \<noteq> []"
  by auto

lemma fixed_texts [simp]:
  "\<not> loneSurrogate msgAnalyzing"
  "\<not> loneSurrogate msgNotReady"
  "\<not> loneSurrogate msgFailure"
  "\<not> loneSurrogate msgNoAccess"
  "\<not> loneSurrogate msgNoCamera"
  by (simp_all add: msgAnalyzing_def msgNotReady_def msgFailure_def msgNoAccess_def
        msgNoCamera_def)

lemma ttsUrl_throws: "(\<exists>e. ttsUrl t = Inl e) = loneSurrogate t"
  by (simp add: ttsUrl_def encodeURIComponent_def)

text \<open>\<^verbatim>\<open>speak\<close> throws exactly when the audio element is attached and the text holds an
  unpaired surrogate.\<close>

lemma speak_case [simp]:
  "(case speak v t s of Returned w \<Rightarrow> f w | Thrown e w \<Rightarrow> g e w) =
     (if audioRef s \<and> loneSurrogate t then g URIError (worldOf (speak v t s))
      else f (worldOf (speak v t s)))"
  using loneSurrogate_nonempty [of t]
  by (auto simp add: speak_def ttsUrl_def encodeURIComponent_def logCall_def Let_def)

lemma speak_returned:
  "\<not> (audioRef s \<and> loneSurrogate t) \<Longrightarrow> speak v t s = Returned (worldOf (speak v t s))"
  using loneSurrogate_nonempty [of t]
  by (auto simp add: speak_def ttsUrl_def encodeURIComponent_def logCall_def Let_def)

lemma speak_frame [simp]:
  "isLoading (worldOf (speak v t s)) = isLoading s"
  "description (worldOf (speak v t s)) = description s"
  "voice (worldOf (speak v t s)) = voice s"
  "videoRef (worldOf (speak v t s)) = videoRef s"
  "video (worldOf (speak v t s)) = video s"
  "canvasRef (worldOf (speak v t s)) = canvasRef s"
  "canvas (worldOf (speak v t s)) = canvas s"
  "audioRef (worldOf (speak v t s)) = audioRef s"
  "mediaDevices (worldOf (speak v t s)) = mediaDevices s"
  "synthThrows (worldOf (speak v t s)) = synthThrows s"
  "onvoiceschanged (worldOf (speak v t s)) = onvoiceschanged s"
  "pendingCycle (worldOf (speak v t s)) = pendingCycle s"
  "pendingCamera (worldOf (speak v t s)) = pendingCamera s"
  by (simp_all add: speak_def logCall_def Let_def split: sum.splits)

lemma speak_error:
  "error (worldOf (speak v t s)) =
     (if t \<noteq> [] \<and> \<not> audioRef s \<and> synthThrows s then msgNoSpeech else error s)"
  by (simp add: speak_def logCall_def speakLocally_error Let_def split: sum.splits)

lemma speak_log [simp]:
  "speakCalls (trace (worldOf (speak v t s))) = speakCalls (trace s) @ [t]"
  "inferenceCalls (trace (worldOf (speak v t s))) = inferenceCalls (trace s)"
  by (simp_all add: speak_def logCall_def Let_def split: sum.splits)

lemma speak_prefix: "prefix (trace s @ [SpeakCall t]) (trace (worldOf (speak v t s)))"
  by (simp add: speak_def speakLocally_def setters Let_def prefix_def split: sum.splits)

lemma fold_local_frame [simp]:
  "isLoading (fold (\<lambda>(k, text, v). speakLocally v text) ls s) = isLoading s"
  "description (fold (\<lambda>(k, text, v). speakLocally v text) ls s) = description s"
  "audioRef (fold (\<lambda>(k, text, v). speakLocally v text) ls s) = audioRef s"
  "synthThrows (fold (\<lambda>(k, text, v). speakLocally v text) ls s) = synthThrows s"
  "pendingCycle (fold (\<lambda>(k, text, v). speakLocally v text) ls s) = pendingCycle s"
  "pendingCamera (fold (\<lambda>(k, text, v). speakLocally v text) ls s) = pendingCamera s"
  "speakCalls (trace (fold (\<lambda>(k, text, v). speakLocally v text) ls s)) = speakCalls (trace s)"
  "inferenceCalls (trace (fold (\<lambda>(k, text, v). speakLocally v text) ls s)) =
     inferenceCalls (trace s)"
  by (induction ls arbitrary: s) (simp_all add: split_def)

lemma fold_local_error:
  "error (fold (\<lambda>(k, text, v). speakLocally v text) ls s) \<in> {error s, msgNoSpeech}"
proof (induction ls arbitrary: s)
  case Nil
  show ?case by simp
next
  case (Cons l ls)
  obtain k t v where l: "l = (k, t, v)" by (cases l) auto
  have "error (speakLocally v t s) \<in> {error s, msgNoSpeech}"
    by (simp add: speakLocally_error)
  with Cons [of "speakLocally v t s"] show ?case
    by (auto simp add: l)
qed

lemma fold_local_error_same:
  "\<not> synthThrows s \<Longrightarrow>
     error (fold (\<lambda>(k, text, v). speakLocally v text) ls s) = error s"
  by (induction ls arbitrary: s) (simp_all add: split_def speakLocally_error)

lemmas handlers = onPlayRejected_def onAudioError_def onUtteranceError_def loadVoices_def
  onCameraGranted_def onCameraDenied_def catchBlock_def

lemma step_inflight:
  assumes "\<not> completes e" and "isLoading s"
  shows "isLoading (step e s)"
    and "description (step e s) = description s"
    and "pendingCycle (step e s) = pendingCycle s"
    and "audioRef (step e s) = audioRef s"
    and "synthThrows (step e s) = synthThrows s"
    and "inferenceCalls (trace (step e s)) = inferenceCalls (trace s)"
  using assms
  by (cases e; simp add: captureAndDescribe_def handlers setters Let_def
        split: option.splits nat.splits prod.splits)+

lemma step_settled:
  assumes "\<not> completes e" and "isLoading s" and "\<not> pendingCamera s"
  shows "\<not> pendingCamera (step e s)"
    and "speakCalls (trace (step e s)) = speakCalls (trace s)"
  using assms
  by (cases e; simp add: captureAndDescribe_def handlers setters Let_def
        split: option.splits nat.splits prod.splits)+

lemma step_error:
  assumes "\<not> completes e" and "isLoading s" and "\<not> pendingCamera s"
  shows "error (step e s) \<in> {error s, msgNoSpeech, msgUtterance}"
proof (cases e)
  case AudioError
  then show ?thesis
    using fold_local_error [of "listeners (audio s)" "s\<lparr>audio := (audio s)\<lparr>listeners := []\<rparr>\<rparr>"]
    by (auto simp add: onAudioError_def)
qed (use assms in \<open>auto simp add: captureAndDescribe_def handlers setters Let_def
        speakLocally_error split: option.splits nat.splits prod.splits\<close>)

lemma step_error_same:
  assumes "\<not> completes e" and "isLoading s" and "\<not> pendingCamera s"
    and "\<not> synthThrows s" and "e \<noteq> UtteranceError"
  shows "error (step e s) = error s"
  using assms
  by (cases e; simp add: captureAndDescribe_def handlers setters Let_def
        speakLocally_error fold_local_error_same split: option.splits nat.splits prod.splits)


lemma run_simps [simp]:
  "run [] s = s"
  "run (e # evs) s = run evs (step e s)"
  "run (evs @ evs') s = run evs' (run evs s)"
  by (simp_all add: run_def)

lemma run_inflight:
  assumes "\<forall>e\<in>set evs. \<not> completes e" and "isLoading s"
  shows "isLoading (run evs s)"
    and "description (run evs s) = description s"
    and "pendingCycle (run evs s) = pendingCycle s"
    and "audioRef (run evs s) = audioRef s"
    and "synthThrows (run evs s) = synthThrows s"
    and "inferenceCalls (trace (run evs s)) = inferenceCalls (trace s)"
  using assms
  by (induction evs arbitrary: s) (simp_all add: step_inflight)

lemma run_settled:
  assumes "\<forall>e\<in>set evs. \<not> completes e" and "isLoading s" and "\<not> pendingCamera s"
  shows "\<not> pendingCamera (run evs s)"
    and "speakCalls (trace (run evs s)) = speakCalls (trace s)"
  using assms
  by (induction evs arbitrary: s) (simp_all add: step_inflight step_settled)

lemma run_error:
  assumes "\<forall>e\<in>set evs. \<not> completes e" and "isLoading s" and "\<not> pendingCamera s"
  shows "error (run evs s) \<in> {error s, msgNoSpeech, msgUtterance}"
  using assms
proof (induction evs arbitrary: s)
  case Nil
  show ?case by simp
next
  case (Cons e evs)
  have e: "\<not> completes e" using Cons.prems by simp
  have "error (run evs (step e s)) \<in> {error (step e s), msgNoSpeech, msgUtterance}"
    using Cons.prems by (intro Cons.IH) (simp_all add: step_inflight step_settled)
  moreover have "error (step e s) \<in> {error s, msgNoSpeech, msgUtterance}"
    using e Cons.prems by (intro step_error) simp_all
  ultimately show ?case by auto
qed

lemma run_error_same:
  assumes "\<forall>e\<in>set evs. \<not> completes e" and "isLoading s" and "\<not> pendingCamera s"
    and "\<not> synthThrows s" and "UtteranceError \<notin> set evs"
  shows "error (run evs s) = error s"
  using assms
proof (induction evs arbitrary: s)
  case Nil
  show ?case by simp
next
  case (Cons e evs)
  have "error (run evs (step e s)) = error (step e s)"
    using Cons.prems by (intro Cons.IH) (simp_all add: step_inflight step_settled)
  moreover have "error (step e s) = error s"
    using Cons.prems by (intro step_error_same) auto
  ultimately show ?case by simp
qed

lemma run_triggers:
  assumes "\<forall>e\<in>set evs. \<not> completes e" and "isLoading s"
  shows "run evs s = run (filter (\<lambda>e. e \<noteq> Trigger) evs) s"
  using assms
proof (induction evs arbitrary: s)
  case Nil
  show ?case by simp
next
  case (Cons e evs)
  show ?case
  proof (cases "e = Trigger")
    case True
    with Cons show ?thesis by (simp add: captureAndDescribe_def)
  next
    case False
    with Cons show ?thesis by (simp add: step_inflight)
  qed
qed

lemma start_ready:
  assumes "\<not> isLoading s" and "cameraReady s" and "context2d (canvas s)"
  shows "isLoading (captureAndDescribe s)"
    and "description (captureAndDescribe s) = []"
    and "pendingCycle (captureAndDescribe s) = Some (voice s)"
    and "pendingCamera (captureAndDescribe s) = pendingCamera s"
    and "audioRef (captureAndDescribe s) = audioRef s"
    and "synthThrows (captureAndDescribe s) = synthThrows s"
    and "speakCalls (trace (captureAndDescribe s)) = speakCalls (trace s) @ [msgAnalyzing]"
    and "inferenceCalls (trace (captureAndDescribe s)) = Suc (inferenceCalls (trace s))"
    and "error (captureAndDescribe s) =
           (if \<not> audioRef s \<and> synthThrows s then msgNoSpeech else [])"
  using assms
  by (simp_all add: captureAndDescribe_def cameraReady_def setters Let_def speak_error
        msgAnalyzing_def)

lemma resolved_step:
  assumes "pendingCycle u = Some v"
  shows "description (step (InferenceResolved T) u) = T"
    and "\<not> isLoading (step (InferenceResolved T) u)"
    and "pendingCycle (step (InferenceResolved T) u) = None"
    and "speakCalls (trace (step (InferenceResolved T) u)) =
           speakCalls (trace u) @ (if audioRef u \<and> loneSurrogate T then [T, msgFailure] else [T])"
    and "inferenceCalls (trace (step (InferenceResolved T) u)) = inferenceCalls (trace u)"
    and "error (step (InferenceResolved T) u) =
           (if audioRef u \<and> loneSurrogate T then msgFailure
            else if T \<noteq> [] \<and> \<not> audioRef u \<and> synthThrows u then msgNoSpeech
            else error u)"
    and "last (trace (step (InferenceResolved T) u)) = SetIsLoading False"
  using assms
  by (simp_all add: onInferenceResolved_def catchBlock_def setters speak_error)

lemma rejected_step:
  assumes "pendingCycle u = Some v"
  shows "description (step InferenceRejected u) = description u"
    and "\<not> isLoading (step InferenceRejected u)"
    and "pendingCycle (step InferenceRejected u) = None"
    and "speakCalls (trace (step InferenceRejected u)) = speakCalls (trace u) @ [msgFailure]"
    and "inferenceCalls (trace (step InferenceRejected u)) = inferenceCalls (trace u)"
    and "error (step InferenceRejected u) =
           (if \<not> audioRef u \<and> synthThrows u then msgNoSpeech else msgFailure)"
    and "last (trace (step InferenceRejected u)) = SetIsLoading False"
  using assms
  by (simp_all add: onInferenceRejected_def catchBlock_def setters speak_error msgFailure_def)

lemma ttsUrl_analyzing:
  "ttsUrl msgAnalyzing =
     Inr ''https://translate.google.com/translate_tts?ie=UTF-8&q=Menganalisis...&tl=id-ID&client=tw-ob''"
  by (simp add: ttsUrl_def encodeURIComponent_def unreserved_def msgAnalyzing_def)

lemma speak_attached:
  assumes "audioRef s" and "t \<noteq> []" and "ttsUrl t = Inr url"
  shows "trace (worldOf (speak v t s)) = trace s @ [SpeakCall t, SynthCancel, AudioPlay url]"
    and "listeners (audio (worldOf (speak v t s))) = listeners (audio s) @ [(nextId s, t, v)]"
    and "plays (worldOf (speak v t s)) = plays s @ [(nextId s, t, v)]"
  using assms by (simp_all add: speak_def logCall_def Let_def)

lemma find_fresh:
  "\<forall>a\<in>set xs. fst a \<noteq> k \<Longrightarrow>
     find (\<lambda>(i, t, v). i = k) (xs @ [(k, t', v')]) = Some (k, t', v')"
  by (induction xs) auto

lemma filter_fresh:
  "\<forall>a\<in>set xs. fst a \<noteq> k \<Longrightarrow> filter (\<lambda>(j, t, u). j \<noteq> k) xs = xs"
  by (induction xs) auto

text \<open>No event attaches or detaches a ref, and the in-flight flag is set exactly while a
  cycle is pending: a world in which the two agree keeps them in agreement.\<close>

lemma fold_local_audio [simp]:
  "videoRef (fold (\<lambda>(k, text, v). speakLocally v text) ls s) = videoRef s"
  "canvasRef (fold (\<lambda>(k, text, v). speakLocally v text) ls s) = canvasRef s"
  by (induction ls arbitrary: s) (simp_all add: split_def)

lemma step_refs:
  "audioRef (step e s) = audioRef s"
  "videoRef (step e s) = videoRef s"
  "canvasRef (step e s) = canvasRef s"
  "synthThrows (step e s) = synthThrows s"
  by (cases e; simp add: captureAndDescribe_def handlers onInferenceResolved_def
        onInferenceRejected_def setters Let_def split: option.splits nat.splits prod.splits)+

lemma step_gate:
  assumes "isLoading s = (pendingCycle s \<noteq> None)"
  shows "isLoading (step e s) = (pendingCycle (step e s) \<noteq> None)"
  using assms
  by (cases e; simp add: captureAndDescribe_def handlers onInferenceResolved_def
        onInferenceRejected_def setters Let_def split: option.splits nat.splits prod.splits)

lemma run_gate:
  assumes "isLoading s = (pendingCycle s \<noteq> None)"
  shows "isLoading (run evs s) = (pendingCycle (run evs s) \<noteq> None)"
  using assms by (induction evs arbitrary: s) (simp_all add: step_gate)

lemmas unfolds = captureAndDescribe_def speak_def speakLocally_def handlers
  onInferenceResolved_def onInferenceRejected_def setters cameraReady_def idleWorld_def Let_def
  ttsUrl_def encodeURIComponent_def unreserved_def hexDigit_def

subsection \<open>The in-flight gate\<close>

text \<open>
  Claim C1. While a cycle is in flight (\<open>isLoading\<close> holds), a trigger changes nothing:
  the handler returns the world it was given, so it calls no setter and starts no
  inference. For every sequence of events that does not complete the pending cycle, the
  triggers in it can be deleted without changing the outcome, and no inference call is
  made over the whole sequence.
\<close>

theorem trigger_in_flight_is_noop:
  assumes "isLoading s" and "\<forall>e\<in>set evs. \<not> completes e"
  shows "captureAndDescribe s = s
    \<and> run evs s = run (filter (\<lambda>e. e \<noteq> Trigger) evs) s
    \<and> inferenceCalls (trace (run evs s)) = inferenceCalls (trace s)"
  using assms by (simp add: captureAndDescribe_def run_triggers [symmetric] run_inflight)

text \<open>The theorem at a cycle started from \<open>idleWorld\<close>, with two further triggers around an
  audio error.\<close>

theorem trigger_in_flight_is_noop_witness:
  "isLoading (run [Trigger] idleWorld)
   \<and> captureAndDescribe (run [Trigger] idleWorld) = run [Trigger] idleWorld
   \<and> run [Trigger, AudioError, Trigger] (run [Trigger] idleWorld) =
       run [AudioError] (run [Trigger] idleWorld)
   \<and> inferenceCalls (trace (run [Trigger, AudioError, Trigger] (run [Trigger] idleWorld))) = 1"
proof -
  have h: "isLoading (run [Trigger] idleWorld)"
    by (simp add: unfolds)
  have i: "inferenceCalls (trace (run [Trigger] idleWorld)) = 1"
    by (simp add: unfolds)
  show ?thesis
    using h i trigger_in_flight_is_noop [OF h, of "[Trigger, AudioError, Trigger]"]
    by (auto simp del: run_simps)
qed

subsection \<open>The three ways a cycle ends\<close>




text \<open>
  Claim C3. A cycle of the mounted component (its audio element is attached) starts in an
  idle world whose camera is ready, and the inference call is rejected. At the end the
  description is empty, the error is the fixed failure message, \<^verbatim>\<open>speak\<close> was called with
  the announcement and then with that message, and the cycle has finished in the ordinary
  way: it is no longer pending and no longer in flight.
\<close>

theorem failure_cycle:
  assumes "\<not> isLoading s" and "cameraReady s" and "context2d (canvas s)"
    and "\<not> pendingCamera s" and "audioRef s" and "\<forall>e\<in>set evs. \<not> completes e"
  defines "s' \<equiv> run (Trigger # evs @ [InferenceRejected]) s"
  shows "description s' = []
    \<and> error s' = msgFailure
    \<and> speakCalls (trace s') = speakCalls (trace s) @ [msgAnalyzing, msgFailure]
    \<and> inferenceCalls (trace s') = Suc (inferenceCalls (trace s))
    \<and> \<not> isLoading s'
    \<and> pendingCycle s' = None"
proof -
  define w where "w = captureAndDescribe s"
  define u where "u = run evs w"
  note st = start_ready [OF assms(1-3), folded w_def]
  have w: "isLoading w" "\<not> pendingCamera w"
    using st assms(4) by simp_all
  note fl = run_inflight [OF assms(6) w(1), folded u_def]
  note se = run_settled [OF assms(6) w, folded u_def]
  have pu: "pendingCycle u = Some (voice s)"
    using fl st by simp
  note re = rejected_step [OF pu]
  have s': "s' = step InferenceRejected u"
    by (simp add: s'_def u_def w_def)
  show ?thesis
    using re st fl se assms(5) by (simp add: s')
qed

text \<open>The theorem at \<open>idleWorld\<close>, with an audio error while the cycle is pending.\<close>

theorem failure_cycle_witness:
  "description (run [Trigger, AudioError, InferenceRejected] idleWorld) = []
   \<and> error (run [Trigger, AudioError, InferenceRejected] idleWorld) = msgFailure
   \<and> speakCalls (trace (run [Trigger, AudioError, InferenceRejected] idleWorld)) =
       [msgAnalyzing, msgFailure]
   \<and> \<not> isLoading (run [Trigger, AudioError, InferenceRejected] idleWorld)"
  using failure_cycle [of idleWorld "[AudioError]"]
  by (simp add: idleWorld_def cameraReady_def)

text \<open>
  Claim C4. A trigger in an idle world of the mounted component whose camera is not ready
  ends the cycle at once: the description is empty, the error is the fixed
  camera-not-ready message, \<^verbatim>\<open>speak\<close> was called with the announcement and then once with
  that message, and no inference call was made.
\<close>

theorem camera_not_ready_cycle:
  assumes "\<not> isLoading s" and "\<not> cameraReady s" and "audioRef s"
  defines "s' \<equiv> run [Trigger] s"
  shows "description s' = []
    \<and> error s' = msgNotReady
    \<and> speakCalls (trace s') = speakCalls (trace s) @ [msgAnalyzing, msgNotReady]
    \<and> count_list (speakCalls (trace s')) msgNotReady =
        Suc (count_list (speakCalls (trace s)) msgNotReady)
    \<and> inferenceCalls (trace s') = inferenceCalls (trace s)
    \<and> pendingCycle s' = pendingCycle s
    \<and> \<not> isLoading s'"
  using assms(1-3) unfolding s'_def
  by (simp add: captureAndDescribe_def cameraReady_def setters Let_def speak_error
        msgAnalyzing_def msgNotReady_def)

text \<open>The theorem at \<open>idleWorld\<close> with a video element that has no frame yet.\<close>

theorem camera_not_ready_cycle_witness:
  "error (run [Trigger] (idleWorld\<lparr>video := (video idleWorld)\<lparr>readyState := 1\<rparr>\<rparr>)) = msgNotReady
   \<and> speakCalls (trace (run [Trigger]
        (idleWorld\<lparr>video := (video idleWorld)\<lparr>readyState := 1\<rparr>\<rparr>))) = [msgAnalyzing, msgNotReady]
   \<and> inferenceCalls (trace (run [Trigger]
        (idleWorld\<lparr>video := (video idleWorld)\<lparr>readyState := 1\<rparr>\<rparr>))) = 0"
  using camera_not_ready_cycle [of "idleWorld\<lparr>video := (video idleWorld)\<lparr>readyState := 1\<rparr>\<rparr>"]
  by (simp add: idleWorld_def cameraReady_def)

subsection \<open>Speech\<close>

text \<open>
  Claim C5. \<^verbatim>\<open>speak\<close> with the empty string returns, without a fault, before it touches a
  backend, and so does \<^verbatim>\<open>speakLocally\<close>: the world is unchanged but for the log's record
  of the call itself.
\<close>

theorem speak_empty_is_noop:
  "speak v [] s = Returned (s\<lparr>trace := trace s @ [SpeakCall []]\<rparr>)
   \<and> speakLocally v [] s = s\<lparr>trace := trace s @ [SpeakLocallyCall []]\<rparr>"
  by (simp add: speak_def speakLocally_def logCall_def)

text \<open>
  Claim C6 concerns one call of \<^verbatim>\<open>speak\<close> on an audio element with no listener left from
  an earlier call. When the only failure signal is the rejection of \<^verbatim>\<open>play()\<close>, or the
  only one is the \<^verbatim>\<open>error\<close> event, or the rejection comes first and the event second,
  \<^verbatim>\<open>speakLocally\<close> runs once with the text. When the \<^verbatim>\<open>error\<close> event comes first and the
  rejection second, it runs twice: the listener has already run and removed itself, so
  the \<^verbatim>\<open>removeEventListener\<close> of the \<^verbatim>\<open>catch\<close> callback removes nothing, and the callback
  falls back again.
\<close>

lemma fallback_by_signal:
  fixes v :: "synth_voice option"
  assumes "audioRef s" and "t \<noteq> []" and "\<not> loneSurrogate t" and "listeners (audio s) = []"
    and "\<forall>a\<in>set (plays s). fst a \<noteq> nextId s"
  defines "s' \<equiv> worldOf (speak v t s)"
  shows "speakLocallyCalls (trace (run [PlayRejected (nextId s)] s')) =
           speakLocallyCalls (trace s) @ [t]"
    and "speakLocallyCalls (trace (run [PlayRejected (nextId s), AudioError] s')) =
           speakLocallyCalls (trace s) @ [t]"
    and "speakLocallyCalls (trace (run [AudioError] s')) =
           speakLocallyCalls (trace s) @ [t]"
    and "speakLocallyCalls (trace (run [AudioError, PlayRejected (nextId s)] s')) =
           speakLocallyCalls (trace s) @ [t, t]"
proof -
  obtain url where url: "ttsUrl t = Inr url"
    using assms(3) by (auto simp add: ttsUrl_def encodeURIComponent_def)
  note sp = speak_attached [OF assms(1,2) url, of v, folded s'_def]
  show "speakLocallyCalls (trace (run [PlayRejected (nextId s)] s')) =
           speakLocallyCalls (trace s) @ [t]"
    and "speakLocallyCalls (trace (run [PlayRejected (nextId s), AudioError] s')) =
           speakLocallyCalls (trace s) @ [t]"
    and "speakLocallyCalls (trace (run [AudioError] s')) =
           speakLocallyCalls (trace s) @ [t]"
    and "speakLocallyCalls (trace (run [AudioError, PlayRejected (nextId s)] s')) =
           speakLocallyCalls (trace s) @ [t, t]"
    using assms(4,5) sp
    by (simp_all add: onPlayRejected_def onAudioError_def find_fresh filter_fresh)
qed

text \<open>Claim C6 at a concrete call: \<^verbatim>\<open>speak("Halo")\<close> in \<open>idleWorld\<close> returns; then the
  \<^verbatim>\<open>error\<close> event, then the rejection of the call's \<^verbatim>\<open>play()\<close> promise. The fallback is
  invoked twice.\<close>

theorem fallback_twice:
  "speak None ''Halo'' idleWorld = Returned (worldOf (speak None ''Halo'' idleWorld))
   \<and> speakLocallyCalls (trace (run [AudioError, PlayRejected 0]
        (worldOf (speak None ''Halo'' idleWorld)))) = [''Halo'', ''Halo'']"
  by (simp add: unfolds)

subsection \<open>The description box\<close>

text \<open>
  Claim C7. In every world, so in every reachable one, the description box shows one
  text: the description when it is not empty, the error otherwise.
\<close>

theorem description_box_shows_one:
  "descriptionBox s = (if description s = [] then error s else description s)
   \<and> (descriptionBox s = description s \<or> descriptionBox s = error s)"
  by (simp add: descriptionBox_def orElse_def)

subsection \<open>The order of a cycle\<close>



subsection \<open>Teardown\<close>

text \<open>What the cleanup does to a world: it always cancels speech and clears the voice-list
  callback, and it stops the tracks only when \<^verbatim>\<open>videoRef.current\<close> is attached.\<close>

lemma cleanup_effect:
  "\<not> onvoiceschanged (cleanup s)
   \<and> trace (cleanup s) = trace s @ [SynthCancel]
   \<and> (if videoRef s then activeTracks (cleanup s) = 0 else video (cleanup s) = video s)"
  by (simp add: cleanup_def logCall_def activeTracks_def stop_def Let_def
        split: option.splits)

text \<open>On unmount the ref is detached before the cleanup runs, so the guard of line 119
  fails and the video element, with its stream, is left as it was, in every world.\<close>

lemma unmount_keeps_stream:
  "video (unmount s) = video s \<and> activeTracks (unmount s) = activeTracks s"
  by (simp add: unmount_def cleanup_def logCall_def activeTracks_def Let_def)

text \<open>
  Claim C9 at a concrete unmount: the component is idle, its video element holds the
  camera stream with one live track. After the unmount speech is cancelled and the
  voice-list callback is cleared, but the track is still live: the code does not stop the
  stream it set out to stop at line 118.
\<close>

theorem unmount_leaves_track_live:
  "srcObject (video idleWorld) = Some [Live]
   \<and> srcObject (video (unmount idleWorld)) = Some [Live]
   \<and> activeTracks (unmount idleWorld) = 1
   \<and> onvoiceschanged (unmount idleWorld) = False
   \<and> trace (unmount idleWorld) = [SynthCancel]"
  by (simp add: unmount_def cleanup_def logCall_def activeTracks_def idleWorld_def Let_def)

subsection \<open>The path without a drawing context\<close>

text \<open>
  Claim C10. A trigger in an idle world of the mounted component whose camera is ready
  but whose canvas gives no 2D context ends the cycle silently: in-flight is reset, the
  description and the error stay empty, the only call of \<^verbatim>\<open>speak\<close> is the announcement,
  and no inference call is made. The log shows the whole cycle.
\<close>

theorem no_context_cycle:
  assumes "\<not> isLoading s" and "cameraReady s" and "\<not> context2d (canvas s)" and "audioRef s"
  defines "s' \<equiv> run [Trigger] s"
  shows "\<not> isLoading s'
    \<and> description s' = []
    \<and> error s' = []
    \<and> speakCalls (trace s') = speakCalls (trace s) @ [msgAnalyzing]
    \<and> inferenceCalls (trace s') = inferenceCalls (trace s)
    \<and> pendingCycle s' = pendingCycle s
    \<and> trace s' = trace s @ [SetIsLoading True, SetDescription [], SetError [],
         SpeakCall msgAnalyzing, SynthCancel,
         AudioPlay ''https://translate.google.com/translate_tts?ie=UTF-8&q=Menganalisis...&tl=id-ID&client=tw-ob'',
         SetIsLoading False]"
proof -
  have "msgAnalyzing \<noteq> []"
    by (simp add: msgAnalyzing_def)
  then show ?thesis
    using assms(1-4) unfolding s'_def
    by (simp add: captureAndDescribe_def cameraReady_def setters speak_attached
          ttsUrl_analyzing speak_error)
qed

text \<open>The theorem at \<open>idleWorld\<close> with a canvas that gives no context.\<close>

theorem no_context_cycle_witness:
  "\<not> isLoading (run [Trigger] (idleWorld\<lparr>canvas := (canvas idleWorld)\<lparr>context2d := False\<rparr>\<rparr>))
   \<and> error (run [Trigger] (idleWorld\<lparr>canvas := (canvas idleWorld)\<lparr>context2d := False\<rparr>\<rparr>)) = []
   \<and> speakCalls (trace (run [Trigger]
        (idleWorld\<lparr>canvas := (canvas idleWorld)\<lparr>context2d := False\<rparr>\<rparr>))) = [msgAnalyzing]"
  using no_context_cycle [of "idleWorld\<lparr>canvas := (canvas idleWorld)\<lparr>context2d := False\<rparr>\<rparr>"]
  by (simp add: idleWorld_def cameraReady_def)

end
